theory Spec2Isabelle
  imports Complex_Main "HOL-Library.Log_Nat"
begin

section \<open>The gift marketplace server: purchase settlement\<close>

text \<open>
  A shallow embedding of \<^verbatim>\<open>src/server.js\<close> (the file-backed server): the pricing function
  \<^verbatim>\<open>calculateRubles\<close>, the JSON store behind \<^verbatim>\<open>loadDB\<close>/\<^verbatim>\<open>saveDB\<close>, and the handlers
  \<^verbatim>\<open>/auth\<close>, \<^verbatim>\<open>/api/create_gift\<close>, \<^verbatim>\<open>/api/sell_gift\<close>, \<^verbatim>\<open>/api/purchase\<close> and \<^verbatim>\<open>/webhook\<close>.
  Each handler is a function from the environment (clock, configuration, the Telegram
  API), the content of \<^verbatim>\<open>db.json\<close> and the request to the new content of the file, the
  HTTP response, the Telegram calls made and the console log. Requests are served one
  after the other: between \<^verbatim>\<open>loadDB()\<close> and \<^verbatim>\<open>saveDB()\<close> no handler awaits anything.

  The variant \<^verbatim>\<open>src/unnamed/part_000\<close> has the same handlers over a remote table store,
  whose schema and stored procedure are not among the sources; it is not modelled.

  Conventions of the model:
  \<^item> identifiers (user ids, gift ids) are strings, the property keys that JavaScript
    makes of them; only own properties of parsed JSON objects are looked up;
  \<^item> star counts are integers (JavaScript numbers in the range where \<^verbatim>\<open>+\<close> on doubles is
    integer addition), or \<^verbatim>\<open>null\<close>, which is what \<^verbatim>\<open>JSON.stringify\<close> writes for \<^verbatim>\<open>NaN\<close>;
  \<^item> ruble amounts are IEEE 754 binary64 values, held as the rational they denote.
\<close>

subsection \<open>JavaScript numbers: binary64 arithmetic on rationals\<close>

text \<open>Rounding a rational to an integer, ties to the even neighbour.\<close>

definition round_half_even :: "rat \<Rightarrow> int" where
  "round_half_even q =
     (let f = \<lfloor>q\<rfloor>; d = q - of_int f
      in if d < 1 / 2 then f
         else if 1 / 2 < d then f + 1
         else if even f then f else f + 1)"

text \<open>
  For \<open>q > 0\<close>, the integer \<open>k\<close> with \<open>2 powi k \<le> q < 2 powi (k + 1)\<close>, from the bit
  lengths of numerator and denominator.
\<close>

definition floor_log2 :: "rat \<Rightarrow> int" where
  "floor_log2 q =
     (let (a, b) = quotient_of q;
          k = bitlen a - bitlen b
      in if 2 powi k \<le> q then k else k - 1)"

text \<open>
  The binary64 value nearest to a rational (round to nearest, ties to even, 53 significant
  bits). The exponent range is not bounded: there is no overflow to \<^verbatim>\<open>Infinity\<close> and no
  gradual underflow, which the amounts computed here stay far away from.
\<close>

definition to_double :: "rat \<Rightarrow> rat" where
  "to_double q =
     (if q = 0 then 0
      else let e = floor_log2 \<bar>q\<bar> - 52
           in of_int (round_half_even (q / 2 powi e)) * 2 powi e)"

text \<open>\<^verbatim>\<open>x * y\<close> on numbers.\<close>

definition js_mul :: "rat \<Rightarrow> rat \<Rightarrow> rat" where
  "js_mul x y = to_double (x * y)"

text \<open>
  \<^verbatim>\<open>x.toFixed(2)\<close>, as the decimal number that the resulting string denotes: the integer
  \<open>n\<close> with \<open>n / 100\<close> nearest to the exact value of \<open>x\<close>, the larger \<open>n\<close> on a tie, the sign
  treated apart (ECMAScript, Number.prototype.toFixed; magnitudes below \<open>10^21\<close>).
\<close>

definition toFixed2 :: "rat \<Rightarrow> rat" where
  "toFixed2 x =
     (if x < 0 then - (of_int \<lfloor>- x * 100 + 1 / 2\<rfloor> / 100)
      else of_int \<lfloor>x * 100 + 1 / 2\<rfloor> / 100)"

text \<open>
  \<^verbatim>\<open>function calculateRubles(stars) { return +(stars * 1.5 * 1.04).toFixed(2); }\<close>
  The literal \<^verbatim>\<open>1.5\<close> is exactly \<open>3 / 2\<close>; the literal \<^verbatim>\<open>1.04\<close> is the double nearest to
  \<open>104 / 100\<close>; unary \<^verbatim>\<open>+\<close> reads the decimal string back as the nearest double.
\<close>

definition calculateRubles :: "rat \<Rightarrow> rat" where
  "calculateRubles stars =
     to_double (toFixed2 (js_mul (js_mul stars (3 / 2)) (to_double (104 / 100))))"

text \<open>\<^verbatim>\<open>Math.round(x)\<close>: the nearest integer, ties towards \<open>+\<infinity>\<close>.\<close>

definition Math_round :: "rat \<Rightarrow> int" where
  "Math_round x = \<lfloor>x + 1 / 2\<rfloor>"

text \<open>
  \<^verbatim>\<open>ToNumber\<close> of a stored star count: \<^verbatim>\<open>null\<close> counts as \<open>0\<close> in \<^verbatim>\<open>null * 1.5\<close> and in
  \<^verbatim>\<open>n + null\<close>.
\<close>

definition ToNumber :: "int option \<Rightarrow> int" where
  "ToNumber v = (case v of None \<Rightarrow> 0 | Some n \<Rightarrow> n)"

text \<open>
  \<^verbatim>\<open>const rub = calculateRubles(gift.stars); const amountKopecks = Math.round(rub * 100);\<close>
\<close>

definition amountKopecks :: "int option \<Rightarrow> int" where
  "amountKopecks stars = Math_round (js_mul (calculateRubles (of_int (ToNumber stars))) 100)"

subsection \<open>JSON values\<close>

datatype json =
    JNull
  | JBool bool
  | JNum rat
  | JStr string
  | JArr "json list"
  | JObj "(string \<times> json) list"

text \<open>
  \<^verbatim>\<open>v.k\<close> for a value other than \<^verbatim>\<open>null\<close>: the own property of an object (the last entry wins
  where \<^verbatim>\<open>JSON.parse\<close> met a key twice), \<^verbatim>\<open>undefined\<close> (\<open>None\<close>) otherwise. The handlers
  read \<^verbatim>\<open>message\<close>, \<^verbatim>\<open>successful_payment\<close>, \<^verbatim>\<open>invoice_payload\<close>, \<^verbatim>\<open>chat\<close> and \<^verbatim>\<open>id\<close>, none of
  which a string, number, boolean or array has.
\<close>

fun field :: "json \<Rightarrow> string \<Rightarrow> json option" where
  "field (JObj kvs) k = map_of (rev kvs) k"
| "field _ k = None"

fun truthy :: "json \<Rightarrow> bool" where
  "truthy JNull = False"
| "truthy (JBool b) = b"
| "truthy (JNum n) = (n \<noteq> 0)"
| "truthy (JStr s) = (s \<noteq> [])"
| "truthy (JArr xs) = True"
| "truthy (JObj kvs) = True"

text \<open>Truthiness of an optional string field of a request body.\<close>

definition truthy_str :: "string option \<Rightarrow> bool" where
  "truthy_str v = (case v of None \<Rightarrow> False | Some s \<Rightarrow> s \<noteq> [])"

text \<open>\<^verbatim>\<open>s.split(c)\<close> for a one-character separator.\<close>

fun split :: "char \<Rightarrow> string \<Rightarrow> string list" where
  "split c [] = [[]]"
| "split c (x # xs) =
     (if x = c then [] # split c xs
      else (case split c xs of [] \<Rightarrow> [[x]] | y # ys \<Rightarrow> (x # y) # ys))"

text \<open>Decimal digits of a natural number, as a template literal prints \<^verbatim>\<open>Date.now()\<close>.\<close>

fun show_nat :: "nat \<Rightarrow> string" where
  "show_nat n =
     (if n < 10 then [''0123456789'' ! n]
      else show_nat (n div 10) @ [''0123456789'' ! (n mod 10)])"

subsection \<open>The store\<close>

text \<open>
  \<^verbatim>\<open>{ id, ownerId, name, description, stars, for_sale, sold }\<close>
\<close>

record gift =
  gift_id :: string
  ownerId :: string
  gift_name :: string
  description :: string
  stars :: "int option"
  for_sale :: bool
  sold :: bool

text \<open>
  \<^verbatim>\<open>{ id, username, avatar, stars, gifts }\<close>; a user entry made from WebApp init data may
  have no \<^verbatim>\<open>username\<close>.
\<close>

record user =
  user_id :: string
  username :: "string option"
  avatar :: string
  user_stars :: int
  user_gifts :: "string list"

text \<open>
  \<^verbatim>\<open>{ giftId, buyerId, sellerId, amountRUB, date }\<close>; \<^verbatim>\<open>buyerId\<close> is left out of the JSON
  when it is \<^verbatim>\<open>undefined\<close>.
\<close>

record purchase =
  giftId :: string
  buyerId :: "string option"
  sellerId :: string
  amountRUB :: rat
  date :: string

text \<open>\<^verbatim>\<open>{ users: {}, gifts: {}, purchases: [] }\<close>\<close>

record db =
  users :: "string \<rightharpoonup> user"
  gifts :: "string \<rightharpoonup> gift"
  purchases :: "purchase list"

definition empty_db :: db where
  "empty_db = \<lparr>users = Map.empty, gifts = Map.empty, purchases = []\<rparr>"

text \<open>The file \<^verbatim>\<open>./db.json\<close>: absent, or holding a store.\<close>

type_synonym dbfile = "db option"

text \<open>
  \<^verbatim>\<open>loadDB\<close> writes the empty store when the file does not exist, then reads the file;
  \<^verbatim>\<open>saveDB\<close> overwrites it.
\<close>

definition loadDB :: "dbfile \<Rightarrow> dbfile \<times> db" where
  "loadDB f = (case f of None \<Rightarrow> (Some empty_db, empty_db) | Some d \<Rightarrow> (Some d, d))"

definition saveDB :: "db \<Rightarrow> dbfile" where
  "saveDB d = Some d"

text \<open>The users, gifts and purchases that the next \<^verbatim>\<open>loadDB\<close> will see.\<close>

definition stored :: "dbfile \<Rightarrow> db" where
  "stored f = snd (loadDB f)"

subsection \<open>The environment: Telegram API, clock, configuration\<close>

text \<open>
  The two message templates of the webhook: to the buyer, built from \<^verbatim>\<open>gift.name\<close>; to the
  seller, built from \<^verbatim>\<open>gift.name\<close> and \<^verbatim>\<open>gift.stars\<close>.
\<close>

datatype msg_text =
    GiftDelivered string
  | GiftSold string "int option"

text \<open>
  \<^verbatim>\<open>{ chat_id, title, description, payload, provider_token, currency, prices, start_parameter }\<close>
\<close>

record invoice =
  chat_id :: "string option"
  title :: string
  inv_description :: string
  payload :: string
  provider_token :: "string option"
  currency :: string
  prices :: "(string \<times> int) list"
  start_parameter :: string

text \<open>\<^verbatim>\<open>tgApi('sendInvoice', invoice)\<close> and \<^verbatim>\<open>tgApi('sendMessage', { chat_id, text })\<close>.\<close>

datatype tg_call =
    SendInvoice invoice
  | SendMessage "json option" msg_text

text \<open>
  What a handler takes from outside: \<^verbatim>\<open>tgApi\<close> (the parsed JSON reply of Telegram, or \<open>None\<close>
  when the awaited promise rejects: \<^verbatim>\<open>fetch\<close> fails or the body is not JSON),
  \<^verbatim>\<open>Date.now()\<close>, \<^verbatim>\<open>new Date().toISOString()\<close> and \<^verbatim>\<open>process.env.PAYMENT_PROVIDER_TOKEN\<close>.
\<close>

record env =
  tgApi :: "tg_call \<Rightarrow> json option"
  now_ms :: nat
  now_iso :: string
  PAYMENT_PROVIDER_TOKEN :: "string option"

datatype response =
    SendStatus nat
  | SendText nat string
  | Redirect string
  | JsonError nat string
  | JsonOkGift gift
  | JsonOkResult json

datatype log = ConsoleError | ConsoleWarn

record result =
  file_after :: dbfile
  response :: response
  calls :: "tg_call list"
  logs :: "log list"

subsection \<open>Handlers\<close>

text \<open>
  \<^verbatim>\<open>db.users[id] = db.users[id] || { id, username, avatar, stars: 0, gifts: [] }\<close>
\<close>

definition ensure_user :: "db \<Rightarrow> string \<Rightarrow> string option \<Rightarrow> string \<Rightarrow> db" where
  "ensure_user d uid uname av =
     (case users d uid of
        Some u \<Rightarrow> d
      | None \<Rightarrow> d\<lparr>users := (users d)(uid \<mapsto>
          \<lparr>user_id = uid, username = uname, avatar = av, user_stars = 0, user_gifts = []\<rparr>)\<rparr>)"

text \<open>
  \<^verbatim>\<open>GET /auth\<close>. The query, with the outcome of \<^verbatim>\<open>verifyTelegramLogin(req.query)\<close>, which
  returns a boolean or throws (\<^verbatim>\<open>timingSafeEqual\<close> on buffers of different length); a
  throw in this synchronous handler is answered by the framework with status 500.
\<close>

datatype login_check = LoginValid | LoginInvalid | LoginThrows

record auth_query =
  check :: login_check
  q_id :: string
  q_username :: "string option"
  q_first_name :: "string option"
  q_photo_url :: "string option"

definition auth :: "dbfile \<Rightarrow> auth_query \<Rightarrow> result" where
  "auth f q =
     (case check q of
        LoginThrows \<Rightarrow> \<lparr>file_after = f, response = SendStatus 500, calls = [], logs = []\<rparr>
      | LoginInvalid \<Rightarrow>
          \<lparr>file_after = f, response = SendText 403 ''Invalid Telegram login'', calls = [], logs = []\<rparr>
      | LoginValid \<Rightarrow>
          (let (f1, d) = loadDB f;
               uname = (if truthy_str (q_username q) then q_username q
                        else if truthy_str (q_first_name q) then q_first_name q
                        else Some (''tg'' @ q_id q));
               av = (case q_photo_url q of None \<Rightarrow> [] | Some a \<Rightarrow> a)
           in \<lparr>file_after = saveDB (ensure_user d (q_id q) uname av),
               response = Redirect (q_id q), calls = [], logs = []\<rparr>))"

text \<open>
  \<^verbatim>\<open>POST /api/create_gift\<close>, body \<^verbatim>\<open>{ ownerId, name, description, stars }\<close>. The field
  \<open>cg_stars\<close> is \<^verbatim>\<open>Number(stars)\<close>, \<open>None\<close> for \<^verbatim>\<open>NaN\<close>.
\<close>

record create_gift_req =
  cg_ownerId :: "string option"
  cg_name :: "string option"
  cg_description :: "string option"
  cg_stars :: "int option"

definition new_gift_id :: "env \<Rightarrow> string" where
  "new_gift_id e = ''gift-'' @ show_nat (now_ms e)"

definition create_gift :: "env \<Rightarrow> dbfile \<Rightarrow> create_gift_req \<Rightarrow> result" where
  "create_gift e f req =
     (case (cg_ownerId req, cg_name req) of
        (Some owner, Some nm) \<Rightarrow>
          if owner = [] \<or> nm = [] then
            \<lparr>file_after = f, response = JsonError 400 ''ownerId and name required'',
             calls = [], logs = []\<rparr>
          else
            (let (f1, d) = loadDB f;
                 gid = new_gift_id e;
                 g = \<lparr>gift_id = gid, ownerId = owner, gift_name = nm,
                      description = (case cg_description req of None \<Rightarrow> [] | Some t \<Rightarrow> t),
                      stars = (case cg_stars req of
                                 None \<Rightarrow> Some 1
                               | Some n \<Rightarrow> if n = 0 then Some 1 else Some n),
                      for_sale = False, sold = False\<rparr>;
                 d1 = d\<lparr>gifts := (gifts d)(gid \<mapsto> g)\<rparr>;
                 d2 = ensure_user d1 owner (Some owner) [];
                 d3 = (case users d2 owner of
                         None \<Rightarrow> d2
                       | Some u \<Rightarrow>
                           d2\<lparr>users := (users d2)(owner \<mapsto> u\<lparr>user_gifts := user_gifts u @ [gid]\<rparr>)\<rparr>)
             in \<lparr>file_after = saveDB d3, response = JsonOkGift g, calls = [], logs = []\<rparr>)
      | _ \<Rightarrow>
          \<lparr>file_after = f, response = JsonError 400 ''ownerId and name required'',
           calls = [], logs = []\<rparr>)"

text \<open>
  \<^verbatim>\<open>POST /api/sell_gift\<close>, body \<^verbatim>\<open>{ id, priceStars }\<close>. The field \<open>sg_priceStars\<close> is \<open>None\<close>
  when \<^verbatim>\<open>priceStars\<close> is falsy, and \<open>Some (Number(priceStars))\<close> otherwise, \<open>Some None\<close> for
  \<^verbatim>\<open>NaN\<close>, which the file then holds as \<^verbatim>\<open>null\<close>.
\<close>

record sell_gift_req =
  sg_id :: string
  sg_priceStars :: "int option option"

definition sell_gift :: "dbfile \<Rightarrow> sell_gift_req \<Rightarrow> result" where
  "sell_gift f req =
     (let (f1, d) = loadDB f
      in case gifts d (sg_id req) of
           None \<Rightarrow>
             \<lparr>file_after = f1, response = JsonError 404 ''gift not found'', calls = [], logs = []\<rparr>
         | Some g0 \<Rightarrow>
             (let g1 = g0\<lparr>for_sale := True\<rparr>;
                  g2 = (case sg_priceStars req of None \<Rightarrow> g1 | Some n \<Rightarrow> g1\<lparr>stars := n\<rparr>)
              in \<lparr>file_after = saveDB (d\<lparr>gifts := (gifts d)(sg_id req \<mapsto> g2)\<rparr>),
                  response = JsonOkGift g2, calls = [], logs = []\<rparr>))"

text \<open>
  The fallback of \<^verbatim>\<open>gift.description || '...'\<close> in the invoice: the UTF-8 bytes of the
  Russian text for ``purchase of a gift''.
\<close>

definition default_description :: string where
  "default_description =
     [CHR 0xD0, CHR 0x9F, CHR 0xD0, CHR 0xBE, CHR 0xD0, CHR 0xBA, CHR 0xD1, CHR 0x83, CHR 0xD0,
      CHR 0xBF, CHR 0xD0, CHR 0xBA, CHR 0xD0, CHR 0xB0, CHR 0x20, CHR 0xD0, CHR 0xBF, CHR 0xD0,
      CHR 0xBE, CHR 0xD0, CHR 0xB4, CHR 0xD0, CHR 0xB0, CHR 0xD1, CHR 0x80, CHR 0xD0, CHR 0xBA,
      CHR 0xD0, CHR 0xB0]"

text \<open>
  \<^verbatim>\<open>POST /api/purchase\<close>, body \<^verbatim>\<open>{ buyerId, giftId }\<close>. A template literal prints an absent
  \<^verbatim>\<open>buyerId\<close> as \<^verbatim>\<open>undefined\<close>.
\<close>

record purchase_req =
  pr_buyerId :: "string option"
  pr_giftId :: string

definition build_invoice :: "env \<Rightarrow> purchase_req \<Rightarrow> gift \<Rightarrow> invoice" where
  "build_invoice e req g =
     \<lparr>chat_id = pr_buyerId req,
      title = gift_name g,
      inv_description = (if description g = [] then default_description else description g),
      payload = pr_giftId req @ '':'' @
                  (case pr_buyerId req of None \<Rightarrow> ''undefined'' | Some b \<Rightarrow> b),
      provider_token = PAYMENT_PROVIDER_TOKEN e,
      currency = ''RUB'',
      prices = [(gift_name g, amountKopecks (stars g))],
      start_parameter = ''buy-'' @ pr_giftId req\<rparr>"

definition purchase :: "env \<Rightarrow> dbfile \<Rightarrow> purchase_req \<Rightarrow> result" where
  "purchase e f req =
     (let (f1, d) = loadDB f
      in case gifts d (pr_giftId req) of
           None \<Rightarrow>
             \<lparr>file_after = f1, response = JsonError 400 ''Gift not available'',
              calls = [], logs = []\<rparr>
         | Some g \<Rightarrow>
             if sold g \<or> \<not> for_sale g then
               \<lparr>file_after = f1, response = JsonError 400 ''Gift not available'',
                calls = [], logs = []\<rparr>
             else
               (let inv = build_invoice e req g
                in case tgApi e (SendInvoice inv) of
                     None \<Rightarrow>
                       \<lparr>file_after = f1, response = JsonError 500 ''internal'',
                        calls = [SendInvoice inv], logs = [ConsoleError]\<rparr>
                   | Some r \<Rightarrow>
                       \<lparr>file_after = f1, response = JsonOkResult r,
                        calls = [SendInvoice inv], logs = []\<rparr>))"

text \<open>
  \<^verbatim>\<open>POST /webhook\<close>. The guard
  \<^verbatim>\<open>update && update.message && update.message.successful_payment\<close>: the message and its
  \<^verbatim>\<open>successful_payment\<close> when all three are truthy.
\<close>

definition successful_payment :: "json \<Rightarrow> (json \<times> json) option" where
  "successful_payment update =
     (if truthy update then
        (case field update ''message'' of
           None \<Rightarrow> None
         | Some message \<Rightarrow>
             if truthy message then
               (case field message ''successful_payment'' of
                  None \<Rightarrow> None
                | Some sp \<Rightarrow> if truthy sp then Some (message, sp) else None)
             else None)
      else None)"

text \<open>
  \<^verbatim>\<open>const [giftId, buyerId] = payload.split(':')\<close>: the first two pieces, the second
  \<^verbatim>\<open>undefined\<close> when there is no colon.
\<close>

definition parse_payload :: "string \<Rightarrow> string \<times> string option" where
  "parse_payload s =
     (case split CHR '':'' s of
        [] \<Rightarrow> ([], None)
      | [a] \<Rightarrow> (a, None)
      | a # b # rest \<Rightarrow> (a, Some b))"

text \<open>
  The body of the guarded block from \<^verbatim>\<open>loadDB()\<close> on, for the gift id, buyer id and chat id
  read from the update. \<^verbatim>\<open>saveDB\<close> comes before the two notifications; the first
  \<^verbatim>\<open>await tgApi\<close> stands directly in the outer \<^verbatim>\<open>try\<close>, the second in a \<^verbatim>\<open>try\<close> of its own.
  \<^verbatim>\<open>seller.stars || 0\<close> is \<^verbatim>\<open>seller.stars\<close> on integers.
\<close>

definition settle :: "env \<Rightarrow> dbfile \<Rightarrow> string \<Rightarrow> string option \<Rightarrow> json option \<Rightarrow> result" where
  "settle e f gid bid chatId =
     (let (f1, d) = loadDB f
      in case gifts d gid of
           None \<Rightarrow> \<lparr>file_after = f1, response = SendStatus 200, calls = [], logs = []\<rparr>
         | Some g0 \<Rightarrow>
             if sold g0 then
               \<lparr>file_after = f1, response = SendStatus 200, calls = [], logs = []\<rparr>
             else
               (let g = g0\<lparr>sold := True, for_sale := False\<rparr>;
                    seller = users d (ownerId g);
                    users1 = (case seller of
                                None \<Rightarrow> users d
                              | Some u \<Rightarrow> (users d)(ownerId g \<mapsto>
                                  u\<lparr>user_stars := user_stars u + ToNumber (stars g)\<rparr>));
                    p = \<lparr>giftId = gid, buyerId = bid, sellerId = ownerId g,
                         amountRUB = calculateRubles (of_int (ToNumber (stars g))),
                         date = now_iso e\<rparr>;
                    f2 = saveDB (d\<lparr>users := users1, gifts := (gifts d)(gid \<mapsto> g),
                                   purchases := purchases d @ [p]\<rparr>);
                    to_buyer = SendMessage chatId (GiftDelivered (gift_name g))
                in case tgApi e to_buyer of
                     None \<Rightarrow>
                       \<lparr>file_after = f2, response = SendStatus 500,
                        calls = [to_buyer], logs = [ConsoleError]\<rparr>
                   | Some r \<Rightarrow>
                       (case seller of
                          None \<Rightarrow>
                            \<lparr>file_after = f2, response = SendStatus 200,
                             calls = [to_buyer], logs = []\<rparr>
                        | Some u \<Rightarrow>
                            if user_id u = [] then
                              \<lparr>file_after = f2, response = SendStatus 200,
                               calls = [to_buyer], logs = []\<rparr>
                            else
                              (let to_seller = SendMessage (Some (JStr (user_id u)))
                                                 (GiftSold (gift_name g) (stars g))
                               in \<lparr>file_after = f2, response = SendStatus 200,
                                   calls = [to_buyer, to_seller],
                                   logs = (case tgApi e to_seller of
                                             None \<Rightarrow> [ConsoleWarn]
                                           | Some r' \<Rightarrow> [])\<rparr>))))"

text \<open>
  The reads before \<^verbatim>\<open>loadDB()\<close>: \<^verbatim>\<open>sp.invoice_payload\<close>, \<^verbatim>\<open>update.message.chat.id\<close> and
  \<^verbatim>\<open>payload.split(':')\<close>. The second throws a \<^verbatim>\<open>TypeError\<close> when \<^verbatim>\<open>chat\<close> is \<^verbatim>\<open>undefined\<close> or
  \<^verbatim>\<open>null\<close>, the third unless the payload is a string (\<open>None\<close>); otherwise the gift id, the
  buyer id and the chat id are returned.
\<close>

definition read_confirmation :: "json \<Rightarrow> json \<Rightarrow> (string \<times> string option \<times> json option) option" where
  "read_confirmation message sp =
     (case field message ''chat'' of
        None \<Rightarrow> None
      | Some chat \<Rightarrow>
          if chat = JNull then None
          else (case field sp ''invoice_payload'' of
                  Some (JStr s) \<Rightarrow>
                    (let (gid, bid) = parse_payload s in Some (gid, bid, field chat ''id''))
                | _ \<Rightarrow> None))"

text \<open>
  The handler: updates without a successful payment are answered with 200; a
  \<^verbatim>\<open>TypeError\<close> is caught by the outer \<^verbatim>\<open>catch\<close>, which logs it and answers with 500.
\<close>

definition webhook :: "env \<Rightarrow> dbfile \<Rightarrow> json \<Rightarrow> result" where
  "webhook e f update =
     (case successful_payment update of
        None \<Rightarrow> \<lparr>file_after = f, response = SendStatus 200, calls = [], logs = []\<rparr>
      | Some (message, sp) \<Rightarrow>
          (case read_confirmation message sp of
             None \<Rightarrow>
               \<lparr>file_after = f, response = SendStatus 500, calls = [], logs = [ConsoleError]\<rparr>
           | Some (gid, bid, chatId) \<Rightarrow> settle e f gid bid chatId))"

subsection \<open>Sequences of requests\<close>

text \<open>
  The requests that reach the store. \<open>InitDataLogin\<close> stands for \<^verbatim>\<open>/api/user\<close> and
  \<^verbatim>\<open>/api/my_gifts\<close> called with verified WebApp init data, which insert the user entry as
  \<^verbatim>\<open>/auth\<close> does; \<open>ReadOnly\<close> for the other paths of the \<^verbatim>\<open>GET\<close> handlers, which only call
  \<^verbatim>\<open>loadDB()\<close>.
\<close>

datatype op =
    Auth auth_query
  | InitDataLogin string "string option" string
  | ReadOnly
  | CreateGift create_gift_req
  | SellGift sell_gift_req
  | Purchase purchase_req
  | Webhook json

fun step :: "env \<Rightarrow> dbfile \<Rightarrow> op \<Rightarrow> dbfile" where
  "step e f (Auth q) = file_after (auth f q)"
| "step e f (InitDataLogin uid uname av) = saveDB (ensure_user (snd (loadDB f)) uid uname av)"
| "step e f ReadOnly = fst (loadDB f)"
| "step e f (CreateGift req) = file_after (create_gift e f req)"
| "step e f (SellGift req) = file_after (sell_gift f req)"
| "step e f (Purchase req) = file_after (purchase e f req)"
| "step e f (Webhook update) = file_after (webhook e f update)"

text \<open>
  A run: the server starts without \<^verbatim>\<open>db.json\<close>, and each request comes with the
  environment it is served in.
\<close>

fun run :: "dbfile \<Rightarrow> (env \<times> op) list \<Rightarrow> dbfile" where
  "run f [] = f"
| "run f ((e, x) # xs) = run (step e f x) xs"



subsection \<open>Predicates of the statements\<close>

text \<open>
  The \<^verbatim>\<open>successful_payment\<close> field of the \<^verbatim>\<open>message\<close> field of an update, \<open>None\<close> when the
  update has no \<^verbatim>\<open>message\<close> or the message has no such field.
\<close>

definition payment_field :: "json \<Rightarrow> json option" where
  "payment_field update =
     (case field update ''message'' of
        None \<Rightarrow> None
      | Some message \<Rightarrow> field message ''successful_payment'')"



text \<open>A sold gift is not for sale.\<close>

definition sold_not_for_sale :: "db \<Rightarrow> bool" where
  "sold_not_for_sale d = (\<forall>k g. gifts d k = Some g \<longrightarrow> sold g \<longrightarrow> \<not> for_sale g)"

subsection \<open>A scenario\<close>

text \<open>
  User \<open>u1\<close> creates the gift \<open>gift-1\<close> for 10 stars and lists it; \<open>u2\<close> pays for it. In
  \<open>env_ok\<close> Telegram answers every call; in \<open>env_down\<close> every call fails; in
  \<open>env_seller_down\<close> only the message to the seller \<open>u1\<close> fails.
\<close>

definition env_ok :: env where
  "env_ok = \<lparr>tgApi = (\<lambda>c. Some (JObj [(''ok'', JBool True)])), now_ms = 1,
             now_iso = ''2024-01-01T00:00:00.000Z'', PAYMENT_PROVIDER_TOKEN = Some ''token''\<rparr>"

definition env_down :: env where
  "env_down = \<lparr>tgApi = (\<lambda>c. None), now_ms = 2,
               now_iso = ''2024-01-02T00:00:00.000Z'', PAYMENT_PROVIDER_TOKEN = Some ''token''\<rparr>"

definition env_seller_down :: env where
  "env_seller_down =
     \<lparr>tgApi = (\<lambda>c. case c of
                       SendMessage (Some (JStr to)) t \<Rightarrow>
                         if to = ''u1'' then None else Some (JObj [(''ok'', JBool True)])
                     | _ \<Rightarrow> Some (JObj [(''ok'', JBool True)])),
      now_ms = 3, now_iso = ''2024-01-03T00:00:00.000Z'',
      PAYMENT_PROVIDER_TOKEN = Some ''token''\<rparr>"

definition rose :: create_gift_req where
  "rose = \<lparr>cg_ownerId = Some ''u1'', cg_name = Some ''Rose'', cg_description = None,
           cg_stars = Some 10\<rparr>"

definition thorn :: create_gift_req where
  "thorn = \<lparr>cg_ownerId = Some ''u1'', cg_name = Some ''Thorn'', cg_description = None,
            cg_stars = Some (- 1)\<rparr>"

definition list_gift_1 :: sell_gift_req where
  "list_gift_1 = \<lparr>sg_id = ''gift-1'', sg_priceStars = None\<rparr>"

definition buy_gift_1 :: purchase_req where
  "buy_gift_1 = \<lparr>pr_buyerId = Some ''u2'', pr_giftId = ''gift-1''\<rparr>"

text \<open>
  \<^verbatim>\<open>{ message: { successful_payment: { invoice_payload: s }, chat: { id: 2 } } }\<close>
\<close>

definition paid_message :: "string \<Rightarrow> json" where
  "paid_message s =
     JObj [(''successful_payment'', JObj [(''invoice_payload'', JStr s)]),
           (''chat'', JObj [(''id'', JNum 2)])]"

definition paid :: "string \<Rightarrow> json" where
  "paid s = JObj [(''message'', paid_message s)]"

definition listed :: dbfile where
  "listed = run None [(env_ok, CreateGift rose), (env_ok, SellGift list_gift_1)]"

definition settled :: dbfile where
  "settled = run listed [(env_ok, Webhook (paid ''gift-1:u2''))]"

definition thorn_listed :: dbfile where
  "thorn_listed = run None [(env_ok, CreateGift thorn), (env_ok, SellGift list_gift_1)]"

text \<open>
  The gift is sold, and a second \<^verbatim>\<open>create_gift\<close> served at the same \<^verbatim>\<open>Date.now()\<close> takes its
  id; the new gift is listed and paid for in turn.
\<close>

definition resale :: "(env \<times> op) list" where
  "resale =
     [(env_ok, CreateGift rose), (env_ok, SellGift list_gift_1),
      (env_ok, Webhook (paid ''gift-1:u2'')),
      (env_ok, CreateGift rose), (env_ok, SellGift list_gift_1),
      (env_ok, Webhook (paid ''gift-1:u3''))]"

definition rose_listed :: gift where
  "rose_listed = \<lparr>gift_id = ''gift-1'', ownerId = ''u1'', gift_name = ''Rose'', description = [],
                  stars = Some 10, for_sale = True, sold = False\<rparr>"

text \<open>A file in which the listed gift's owner has no user entry.\<close>

definition ownerless :: dbfile where
  "ownerless = Some \<lparr>users = Map.empty, gifts = [''gift-1'' \<mapsto> rose_listed], purchases = []\<rparr>"

text \<open>
  A second gift is created at a later \<^verbatim>\<open>Date.now()\<close>, and the confirmation for \<open>gift-1\<close> is
  delivered again.
\<close>

definition two_gifts :: "(env \<times> op) list" where
  "two_gifts =
     [(env_ok, CreateGift rose), (env_ok, SellGift list_gift_1),
      (env_ok, Webhook (paid ''gift-1:u2'')),
      (env_down, CreateGift rose),
      (env_ok, Webhook (paid ''gift-1:u3''))]"

declare show_nat.simps [simp del]

lemmas scenario_defs =
  env_ok_def env_down_def env_seller_down_def rose_def thorn_def list_gift_1_def buy_gift_1_def
  paid_message_def paid_def listed_def settled_def thorn_listed_def resale_def two_gifts_def
  rose_listed_def ownerless_def

lemmas handler_defs =
  auth_def create_gift_def sell_gift_def purchase_def webhook_def settle_def build_invoice_def
  loadDB_def saveDB_def stored_def ensure_user_def new_gift_id_def show_nat.simps
  successful_payment_def read_confirmation_def parse_payload_def payment_field_def
  empty_db_def ToNumber_def Let_def

section \<open>Properties\<close>

subsection \<open>Reading and writing the file\<close>

lemma stored_simps [simp]: "stored None = empty_db" "stored (Some d) = d"
  by (simp_all add: stored_def loadDB_def)

lemma loadDB_eq: "loadDB f = (Some (stored f), stored f)"
  by (cases f) (simp_all add: loadDB_def)

lemma stored_saveDB [simp]: "stored (saveDB d) = d"
  by (simp add: saveDB_def)

lemma ensure_user_frame:
  "gifts (ensure_user d uid un av) = gifts d"
  "purchases (ensure_user d uid un av) = purchases d"
  "users d k \<noteq> None \<Longrightarrow> users (ensure_user d uid un av) k \<noteq> None"
  by (auto simp: ensure_user_def split: option.splits)

lemma purchase_file: "file_after (purchase e f req) = Some (stored f)"
  by (simp add: purchase_def loadDB_eq Let_def split: option.splits)

lemma create_gift_rejected:
  assumes "\<nexists>owner nm. cg_ownerId req = Some owner \<and> cg_name req = Some nm \<and> owner \<noteq> [] \<and> nm \<noteq> []"
  shows "file_after (create_gift e f req) = f"
  using assms by (auto simp: create_gift_def split: option.splits)

subsection \<open>The two outcomes of settlement\<close>

lemma successful_payment_None:
  "payment_field update = None \<Longrightarrow> successful_payment update = None"
  by (auto simp: payment_field_def successful_payment_def split: option.splits)

lemma settle_noop:
  assumes "case gifts (stored f) gid of None \<Rightarrow> True | Some g \<Rightarrow> sold g"
  shows "settle e f gid bid c =
           \<lparr>file_after = Some (stored f), response = SendStatus 200, calls = [], logs = []\<rparr>"
  using assms by (auto simp: settle_def loadDB_eq split: option.splits)

lemma settle_applies:
  assumes "gifts (stored f) gid = Some g" and "\<not> sold g"
  shows "file_after (settle e f gid bid c) =
     Some ((stored f)
       \<lparr>users := (case users (stored f) (ownerId g) of
                    None \<Rightarrow> users (stored f)
                  | Some u \<Rightarrow> (users (stored f))(ownerId g \<mapsto>
                      u\<lparr>user_stars := user_stars u + ToNumber (stars g)\<rparr>)),
        gifts := (gifts (stored f))(gid \<mapsto> g\<lparr>sold := True, for_sale := False\<rparr>),
        purchases := purchases (stored f) @
          [\<lparr>giftId = gid, buyerId = bid, sellerId = ownerId g,
            amountRUB = calculateRubles (of_int (ToNumber (stars g))), date = now_iso e\<rparr>]\<rparr>)"
  using assms by (simp add: settle_def loadDB_eq Let_def saveDB_def split: option.splits)


subsection \<open>Idempotence of the confirmation\<close>



subsection \<open>Updates that are not payment confirmations\<close>

text \<open>
  Claim C10. An update that has no \<^verbatim>\<open>message\<close>, or whose message has no
  \<^verbatim>\<open>successful_payment\<close> field (the empty body \<^verbatim>\<open>{}\<close> among them), leaves the file as it is
  (the handler does not even call \<^verbatim>\<open>loadDB\<close>), makes no call to Telegram and is answered
  with status 200.
\<close>

theorem webhook_ignores_other_updates:
  assumes "payment_field update = None"
  shows "file_after (webhook e f update) = f
         \<and> calls (webhook e f update) = []
         \<and> response (webhook e f update) = SendStatus 200"
  using successful_payment_None [OF assms] by (simp add: webhook_def)

text \<open>The empty body and a text message, served while a gift is listed.\<close>

theorem webhook_ignores_other_updates_witness:
  "payment_field (JObj []) = None
   \<and> file_after (webhook env_ok listed (JObj [])) = listed
   \<and> calls (webhook env_ok listed (JObj [])) = []
   \<and> response (webhook env_ok listed (JObj [])) = SendStatus 200
   \<and> payment_field (JObj [(''message'', JObj [(''text'', JStr ''hello'')])]) = None
   \<and> file_after (webhook env_ok listed (JObj [(''message'', JObj [(''text'', JStr ''hello'')])]))
       = listed"
proof -
  have a: "payment_field (JObj []) = None"
    and b: "payment_field (JObj [(''message'', JObj [(''text'', JStr ''hello'')])]) = None"
    by (simp_all add: payment_field_def)
  show ?thesis
    using webhook_ignores_other_updates [OF a, of env_ok listed]
      webhook_ignores_other_updates [OF b, of env_ok listed] a b
    by simp
qed

subsection \<open>The purchase request\<close>

text \<open>
  Claim C6. A purchase request, accepted or rejected, and whatever Telegram answers,
  leaves the stored users, gifts and purchases as they were: the handler never calls
  \<^verbatim>\<open>saveDB\<close>, and the only write is \<^verbatim>\<open>loadDB\<close> creating a missing file with the empty
  store. Between the invoice and its confirmation it is the webhook that writes.
\<close>

theorem purchase_mutation_free:
  "users (stored (file_after (purchase e f req))) = users (stored f)
   \<and> gifts (stored (file_after (purchase e f req))) = gifts (stored f)
   \<and> purchases (stored (file_after (purchase e f req))) = purchases (stored f)"
  by (simp add: purchase_file)

text \<open>An accepted request for the listed gift, and a request made before the file exists.\<close>

theorem purchase_mutation_free_witness:
  "response (purchase env_ok listed buy_gift_1) = JsonOkResult (JObj [(''ok'', JBool True)])
   \<and> users (stored (file_after (purchase env_ok listed buy_gift_1))) = users (stored listed)
   \<and> gifts (stored (file_after (purchase env_ok listed buy_gift_1))) = gifts (stored listed)
   \<and> purchases (stored (file_after (purchase env_ok listed buy_gift_1)))
       = purchases (stored listed)
   \<and> file_after (purchase env_ok None buy_gift_1) = Some empty_db
   \<and> gifts (stored (file_after (purchase env_ok None buy_gift_1))) = gifts (stored None)"
proof -
  have "response (purchase env_ok listed buy_gift_1) = JsonOkResult (JObj [(''ok'', JBool True)])"
    by (simp add: scenario_defs handler_defs)
  moreover have "file_after (purchase env_ok None buy_gift_1) = Some empty_db"
    by (simp add: purchase_file)
  ultimately show ?thesis
    using purchase_mutation_free [of env_ok listed buy_gift_1]
      purchase_mutation_free [of env_ok None buy_gift_1]
    by simp
qed



subsection \<open>Every gift's owner has a user entry\<close>











subsection \<open>The sale transition\<close>




subsection \<open>One purchase record per gift\<close>













subsection \<open>Sold gifts and the for-sale flag\<close>

lemma sold_not_for_sale_ensure_user:
  "sold_not_for_sale d \<Longrightarrow> sold_not_for_sale (ensure_user d uid un av)"
  by (simp add: sold_not_for_sale_def ensure_user_frame)

lemma sold_not_for_sale_auth:
  "sold_not_for_sale (stored f) \<Longrightarrow> sold_not_for_sale (stored (file_after (auth f q)))"
  by (cases "check q") (simp_all add: auth_def loadDB_eq Let_def sold_not_for_sale_ensure_user)

lemma sold_not_for_sale_create_gift:
  assumes "sold_not_for_sale (stored f)"
  shows "sold_not_for_sale (stored (file_after (create_gift e f req)))"
proof (cases "\<exists>owner nm. cg_ownerId req = Some owner \<and> cg_name req = Some nm
                \<and> owner \<noteq> [] \<and> nm \<noteq> []")
  case False
  with assms show ?thesis by (simp add: create_gift_rejected)
next
  case True
  then obtain owner nm where
    "cg_ownerId req = Some owner" "cg_name req = Some nm" "owner \<noteq> []" "nm \<noteq> []"
    by blast
  with assms show ?thesis
    by (auto simp: create_gift_def loadDB_eq Let_def sold_not_for_sale_def ensure_user_def
          split: option.splits)
qed

lemma sold_not_for_sale_purchase:
  "sold_not_for_sale (stored f) \<Longrightarrow> sold_not_for_sale (stored (file_after (purchase e f req)))"
  by (simp add: purchase_file)

lemma sold_not_for_sale_webhook:
  assumes "sold_not_for_sale (stored f)"
  shows "sold_not_for_sale (stored (file_after (webhook e f u)))"
proof -
  have "sold_not_for_sale (stored (file_after (settle e f gid bid c)))" for gid bid c
  proof (cases "case gifts (stored f) gid of None \<Rightarrow> True | Some g \<Rightarrow> sold g")
    case True
    with assms show ?thesis by (simp add: settle_noop)
  next
    case False
    then obtain g where g: "gifts (stored f) gid = Some g" "\<not> sold g"
      by (auto split: option.splits)
    show ?thesis
      unfolding settle_applies [OF g]
      using assms by (auto simp: sold_not_for_sale_def)
  qed
  with assms show ?thesis
    by (auto simp: webhook_def split: option.splits)
qed

lemma sold_not_for_sale_sell_unsold:
  assumes "sold_not_for_sale (stored f)"
    and "case gifts (stored f) (sg_id req) of None \<Rightarrow> True | Some g \<Rightarrow> \<not> sold g"
  shows "sold_not_for_sale (stored (file_after (sell_gift f req)))"
  using assms
  by (auto simp: sell_gift_def loadDB_eq Let_def sold_not_for_sale_def split: option.splits)

text \<open>
  Claim C2. The webhook keeps the invariant (it clears \<^verbatim>\<open>for_sale\<close> when it sets \<^verbatim>\<open>sold\<close>), and
  so do \<^verbatim>\<open>/auth\<close>, \<^verbatim>\<open>create_gift\<close> and \<^verbatim>\<open>purchase\<close>, as the lemmas above show; \<^verbatim>\<open>sell_gift\<close> keeps
  it for a gift that is not sold. But \<^verbatim>\<open>sell_gift\<close> sets \<^verbatim>\<open>for_sale = true\<close> without reading
  \<^verbatim>\<open>sold\<close>: called for the gift sold in the scenario, whose flags are \<^verbatim>\<open>sold = true\<close>,
  \<^verbatim>\<open>for_sale = false\<close>, it leaves a gift that is sold and for sale.
\<close>

theorem sell_gift_relists_sold_gift:
  "gifts (stored settled) ''gift-1'' = Some (rose_listed\<lparr>sold := True, for_sale := False\<rparr>)
   \<and> response (sell_gift settled list_gift_1)
       = JsonOkGift (rose_listed\<lparr>sold := True, for_sale := True\<rparr>)
   \<and> gifts (stored (file_after (sell_gift settled list_gift_1))) ''gift-1''
       = Some (rose_listed\<lparr>sold := True, for_sale := True\<rparr>)"
  by (simp add: scenario_defs handler_defs)

subsection \<open>Failing notifications\<close>

lemma notification_to_seller_may_fail:
  assumes "gifts (stored f) gid = Some g" and "\<not> sold g"
    and "tgApi e (SendMessage c (GiftDelivered (gift_name g))) \<noteq> None"
  shows "response (settle e f gid bid c) = SendStatus 200"
  using assms by (auto simp: settle_def loadDB_eq Let_def split: option.splits)

lemma notification_to_buyer_fails:
  assumes "gifts (stored f) gid = Some g" and "\<not> sold g"
    and "tgApi e (SendMessage c (GiftDelivered (gift_name g))) = None"
  shows "response (settle e f gid bid c) = SendStatus 500"
    and "logs (settle e f gid bid c) = [ConsoleError]"
    and "calls (settle e f gid bid c) = [SendMessage c (GiftDelivered (gift_name g))]"
  using assms by (auto simp: settle_def loadDB_eq Let_def split: option.splits)

text \<open>
  Claim C7. The message to the seller stands in a \<^verbatim>\<open>try\<close> of its own: when it fails, the
  failure is logged with \<^verbatim>\<open>console.warn\<close> and the answer is 200. The message to the buyer does
  not: \<^verbatim>\<open>await tgApi('sendMessage', ...)\<close> stands directly in the outer \<^verbatim>\<open>try\<close>, after
  \<^verbatim>\<open>saveDB\<close>. When it fails, the outer \<^verbatim>\<open>catch\<close> answers with status 500 although the sale is
  written, and the message to the seller is not sent. Nothing is retried by the handler.
\<close>

theorem buyer_notification_failure_answers_500:
  "response (webhook env_down listed (paid ''gift-1:u2'')) = SendStatus 500
   \<and> logs (webhook env_down listed (paid ''gift-1:u2'')) = [ConsoleError]
   \<and> calls (webhook env_down listed (paid ''gift-1:u2''))
       = [SendMessage (Some (JNum 2)) (GiftDelivered ''Rose'')]
   \<and> gifts (stored (file_after (webhook env_down listed (paid ''gift-1:u2'')))) ''gift-1''
       = Some (rose_listed\<lparr>sold := True, for_sale := False\<rparr>)
   \<and> response (webhook env_seller_down listed (paid ''gift-1:u2'')) = SendStatus 200
   \<and> logs (webhook env_seller_down listed (paid ''gift-1:u2'')) = [ConsoleWarn]
   \<and> calls (webhook env_seller_down listed (paid ''gift-1:u2''))
       = [SendMessage (Some (JNum 2)) (GiftDelivered ''Rose''),
          SendMessage (Some (JStr ''u1'')) (GiftSold ''Rose'' (Some 10))]"
  by (simp add: scenario_defs handler_defs)

subsection \<open>Payloads without a colon\<close>



lemma unreadable_confirmation_throws:
  assumes "successful_payment update = Some (message, sp)"
    and "read_confirmation message sp = None"
  shows "webhook e f update =
           \<lparr>file_after = f, response = SendStatus 500, calls = [], logs = [ConsoleError]\<rparr>"
  using assms by (simp add: webhook_def)

lemma payload_not_a_string:
  assumes "\<nexists>s. field sp ''invoice_payload'' = Some (JStr s)"
  shows "read_confirmation message sp = None"
  using assms by (auto simp: read_confirmation_def split: option.splits json.splits)




subsection \<open>Pricing\<close>


lemma floor_log2_upper:
  assumes "0 < q"
  shows "q < 2 powi (floor_log2 q + 1)"
proof -
  obtain a b where ab: "quotient_of q = (a, b)" by (cases "quotient_of q")
  have b: "0 < b" using quotient_of_denom_pos [OF ab] .
  have q: "q = of_int a / of_int b" using quotient_of_div [OF ab] .
  have a: "0 < a" using assms b unfolding q by (simp add: zero_less_divide_iff)
  define k where "k = bitlen a - bitlen b"
  have fl: "floor_log2 q = (if 2 powi k \<le> q then k else k - 1)"
    by (simp add: floor_log2_def ab k_def Let_def)
  have "q < 2 powi (k + 1)"
  proof -
    have la: "a < 2 ^ nat (bitlen a)" using bitlen_bounds [OF a] by simp
    have lb: "2 ^ nat (bitlen b - 1) \<le> b" using bitlen_bounds [OF b] by simp
    have pa: "0 \<le> bitlen a" by (rule bitlen_nonneg)
    have pb: "0 \<le> bitlen b - 1" using b by (simp add: bitlen_alt_def)
    have "(of_int a :: rat) < 2 powi (bitlen a)"
    proof -
      have "(of_int a :: rat) < of_int (2 ^ nat (bitlen a))" using la by (simp only: of_int_less_iff)
      then show ?thesis using pa by (simp add: power_int_def)
    qed
    moreover have "(2::rat) powi (bitlen b - 1) \<le> of_int b"
    proof -
      have "(of_int (2 ^ nat (bitlen b - 1)) :: rat) \<le> of_int b" using lb by (simp only: of_int_le_iff)
      then show ?thesis using pb by (simp add: power_int_def)
    qed
    moreover have "(2::rat) powi (k + 1) = 2 powi (bitlen a) / 2 powi (bitlen b - 1)"
    proof -
      have e: "k + 1 = bitlen a - (bitlen b - 1)" by (simp add: k_def)
      show ?thesis unfolding e by (rule power_int_diff) simp
    qed
    ultimately show ?thesis
      unfolding q using a b
      by (simp only:) (rule frac_less, simp_all)
  qed
  then show ?thesis by (auto simp: fl)
qed











end
